theory Spec2Isabelle
  imports Complex_Main
begin

section \<open>Values of the notebooks\<close>

text \<open>
  The notebooks are straight-line scripts over NumPy arrays.  A one-dimensional array
  is a list of numbers, a two-dimensional array the list of its rows.  The float64
  entries are read as real numbers.  Every exception a cell can raise by itself is a
  value of \<open>error\<close>; a cell returns \<open>error + 'a\<close>, with \<open>Inl\<close> for the
  exception.
\<close>

type_synonym vec = "real list"
type_synonym mat = "real list list"

datatype error = ZeroDivisionError | ValueError | IndexError

definition bindE :: "error + 'a \<Rightarrow> ('a \<Rightarrow> error + 'b) \<Rightarrow> error + 'b" where
  "bindE m f = (case m of Inl e \<Rightarrow> Inl e | Inr v \<Rightarrow> f v)"

text \<open>\<^verbatim>\<open>xs[i]\<close> on a Python list, for the non-negative literal indices of the notebooks.\<close>

definition getitem :: "'a list \<Rightarrow> nat \<Rightarrow> error + 'a" where
  "getitem xs i = (if i < length xs then Inr (xs ! i) else Inl IndexError)"

text \<open>
  \<^verbatim>\<open>1/n\<close> on Python integers is true division and raises on a zero divisor
  (HOL's \<open>1 / 0\<close> would silently be \<open>0\<close>).
\<close>

definition truediv :: "real \<Rightarrow> nat \<Rightarrow> error + real" where
  "truediv a n = (if n = 0 then Inl ZeroDivisionError else Inr (a / real n))"

subsection \<open>Elementwise NumPy operations\<close>

text \<open>
  A binary operator on two arrays works entry by entry; an axis of length one is
  stretched to the length of the other operand's axis, and any other disagreement of
  the shapes raises \<^verbatim>\<open>ValueError\<close>.  (A list of rows does not record the width of an
  array without rows; the arrays of the notebooks have rows.)
\<close>

definition broadcast1 :: "(real \<Rightarrow> real \<Rightarrow> real) \<Rightarrow> vec \<Rightarrow> vec \<Rightarrow> error + vec" where
  "broadcast1 f a b =
     (if length a = length b then Inr (map2 f a b)
      else if length a = 1 then Inr (map (f (hd a)) b)
      else if length b = 1 then Inr (map (\<lambda>u. f u (hd b)) a)
      else Inl ValueError)"

fun collect :: "(error + 'a) list \<Rightarrow> error + 'a list" where
  "collect [] = Inr []"
| "collect (r # rs) =
     (case r of Inl e \<Rightarrow> Inl e
      | Inr v \<Rightarrow> (case collect rs of Inl e \<Rightarrow> Inl e | Inr vs \<Rightarrow> Inr (v # vs)))"

definition broadcast2 :: "(real \<Rightarrow> real \<Rightarrow> real) \<Rightarrow> mat \<Rightarrow> mat \<Rightarrow> error + mat" where
  "broadcast2 f A B =
     (if length A = length B then collect (map2 (broadcast1 f) A B)
      else if length A = 1 then collect (map (broadcast1 f (hd A)) B)
      else if length B = 1 then collect (map (\<lambda>r. broadcast1 f r (hd B)) A)
      else Inl ValueError)"

text \<open>\<^verbatim>\<open>a + b\<close> and \<^verbatim>\<open>a - b\<close> on one-dimensional arrays, \<^verbatim>\<open>A + B\<close> on matrices.\<close>

definition np_add :: "vec \<Rightarrow> vec \<Rightarrow> error + vec" where
  "np_add a b = broadcast1 (+) a b"

definition np_subtract :: "vec \<Rightarrow> vec \<Rightarrow> error + vec" where
  "np_subtract a b = broadcast1 (-) a b"

definition np_add2 :: "mat \<Rightarrow> mat \<Rightarrow> error + mat" where
  "np_add2 A B = broadcast2 (+) A B"

text \<open>\<^verbatim>\<open>c * v\<close> with a Python float on the left, \<^verbatim>\<open>A / 2\<close> with a scalar divisor.\<close>

definition scalar_mul :: "real \<Rightarrow> vec \<Rightarrow> vec" where
  "scalar_mul c v = map (\<lambda>u. c * u) v"

definition div_scalar :: "mat \<Rightarrow> real \<Rightarrow> mat" where
  "div_scalar A c = map (map (\<lambda>u. u / c)) A"

text \<open>\<^verbatim>\<open>A[:, :k]\<close>: the first \<open>k\<close> columns of every row.\<close>

definition columns_upto :: "mat \<Rightarrow> nat \<Rightarrow> mat" where
  "columns_upto A k = map (take k) A"

section \<open>The objects the notebooks talk to\<close>

text \<open>
  The converged mean-field object \<^verbatim>\<open>mf\<close> and the molecule \<^verbatim>\<open>mol\<close> of the PySCF
  notebook, as far as the cells read them.  \<open>make_rdm1\<close> is what \<^verbatim>\<open>mf.make_rdm1()\<close>
  returns: the total one-particle density matrix.
\<close>

record scf =
  mo_coeff :: mat
  mo_energy :: vec
  make_rdm1 :: mat

record mole =
  nelec :: "nat \<times> nat"

text \<open>
  The attributes of the \<^verbatim>\<open>n2v.Inverter\<close> object that the cells assign or read.
  \<open>nalpha\<close> and \<open>nbeta\<close> are set by the toolkit's \<^verbatim>\<open>set_system\<close>, \<open>v_pbs\<close> by its
  \<^verbatim>\<open>invert\<close>.
\<close>

record inverter =
  Dt :: "mat list"
  ct :: "mat list"
  et :: "vec list"
  nalpha :: nat
  nbeta :: nat
  v_pbs :: vec

text \<open>
  The toolkit itself is not part of the notebooks.  Its calls, on the system that
  \<^verbatim>\<open>set_system\<close> has fixed, are parameters of the model, each a function of the
  arguments the cell passes: \<^verbatim>\<open>inv.invert\<close> as a function on the inverter object,
  and the grid engine \<^verbatim>\<open>inv.eng.grid\<close> with the grid \<open>'g\<close> that
  \<^verbatim>\<open>build_rectangular\<close> leaves behind and that \<^verbatim>\<open>grid='rectangular'\<close> refers to.
\<close>

record 'g toolkit =
  invert :: "string \<Rightarrow> string \<Rightarrow> inverter \<Rightarrow> inverter"
  grid_build_rectangular :: "nat \<times> nat \<times> nat \<Rightarrow> 'g"
  grid_hartree :: "mat \<Rightarrow> 'g \<Rightarrow> vec"
  grid_to_grid :: "vec \<Rightarrow> 'g \<Rightarrow> vec"

section \<open>The cells of the PySCF notebook\<close>

text \<open>
  Cell 2, after the calculation:
  \<^verbatim>\<open>
  da, db = mf.make_rdm1()/2, mf.make_rdm1()/2
  ca, cb = mf.mo_coeff[:,:mol.nelec[0]], mf.mo_coeff[:, :mol.nelec[1]]
  ea, eb = mf.mo_energy, mf.mo_energy
  inv.Dt = [da, db]
  inv.ct = [ca, cb]
  inv.et = [ea, eb]
  \<close>
\<close>

record extracted =
  da :: mat
  db :: mat
  ca :: mat
  cb :: mat
  ea :: vec
  eb :: vec
  inv_obj :: inverter

definition extract_target :: "scf \<Rightarrow> mole \<Rightarrow> inverter \<Rightarrow> extracted" where
  "extract_target mf mol inv0 =
     (let da = div_scalar (make_rdm1 mf) 2;
          db = div_scalar (make_rdm1 mf) 2;
          ca = columns_upto (mo_coeff mf) (fst (nelec mol));
          cb = columns_upto (mo_coeff mf) (snd (nelec mol));
          ea = mo_energy mf;
          eb = mo_energy mf
      in \<lparr>da = da, db = db, ca = ca, cb = cb, ea = ea, eb = eb,
          inv_obj = inv0\<lparr>Dt := [da, db], ct := [ca, cb], et := [ea, eb]\<rparr>\<rparr>)"

text \<open>
  Cell 5:
  \<^verbatim>\<open>
  vH = inv.eng.grid.hartree(density=inv.Dt[0]+inv.Dt[1], grid='rectangular')
  vFA = (1-1/(inv.nalpha + inv.nbeta)) * vH
  \<close>
\<close>

definition fermi_amaldi_factor :: "inverter \<Rightarrow> error + real" where
  "fermi_amaldi_factor i =
     bindE (truediv 1 (nalpha i + nbeta i)) (\<lambda>q. Inr (1 - q))"

definition potentials :: "'g toolkit \<Rightarrow> 'g \<Rightarrow> inverter \<Rightarrow> error + vec \<times> vec" where
  "potentials tk g i =
     bindE (getitem (Dt i) 0) (\<lambda>D0.
     bindE (getitem (Dt i) 1) (\<lambda>D1.
     bindE (np_add2 D0 D1) (\<lambda>D.
       let vH = grid_hartree tk D g in
       bindE (fermi_amaldi_factor i) (\<lambda>c.
         let vFA = scalar_mul c vH in
         Inr (vH, vFA)))))"

text \<open>
  Cell 8:
  \<^verbatim>\<open>
  vrest = inv.eng.grid.to_grid(inv.v_pbs, grid='rectangular')
  hartree = inv.eng.grid.hartree(da+db, grid='rectangular')
  fa = (1-1/(inv.nalpha + inv.nbeta)) * hartree
  vxc = vFA + vrest - vH
  \<close>
\<close>

record xc_cell =
  vrest :: vec
  hartree :: vec
  fa :: vec
  vxc :: vec

definition exchange_correlation ::
  "'g toolkit \<Rightarrow> 'g \<Rightarrow> inverter \<Rightarrow> extracted \<Rightarrow> vec \<Rightarrow> vec \<Rightarrow> error + xc_cell" where
  "exchange_correlation tk g i t vH vFA =
     (let vrest = grid_to_grid tk (v_pbs i) g in
      bindE (np_add2 (da t) (db t)) (\<lambda>D.
        let hartree = grid_hartree tk D g in
        bindE (fermi_amaldi_factor i) (\<lambda>c.
          let fa = scalar_mul c hartree in
          bindE (np_add vFA vrest) (\<lambda>t.
          bindE (np_subtract t vH) (\<lambda>vxc.
            Inr \<lparr>vrest = vrest, hartree = hartree, fa = fa, vxc = vxc\<rparr>)))))"

text \<open>
  The notebook from cell 2 to cell 8, in the order of the file: extract the target
  data, invert (cell 3), build the grid (cell 4), then the two potential cells.  The
  result holds every variable these cells have bound; the abscissa \<^verbatim>\<open>x\<close> of cell 4
  and the plot are read by no later computation and are left out.
\<close>

record workspace =
  target :: extracted
  inverted :: inverter
  vH :: vec
  vFA :: vec
  xc :: xc_cell

definition notebook :: "'g toolkit \<Rightarrow> scf \<Rightarrow> mole \<Rightarrow> inverter \<Rightarrow> error + workspace" where
  "notebook tk mf mol inv0 =
     (let t = extract_target mf mol inv0;
          i = invert tk ''WuYang'' ''fermi_amaldi'' (inv_obj t);
          g = grid_build_rectangular tk (1001, 1, 1)
      in bindE (potentials tk g i) (\<lambda>(vH, vFA).
         bindE (exchange_correlation tk g i t vH vFA) (\<lambda>c.
           Inr \<lparr>target = t, inverted = i, vH = vH, vFA = vFA, xc = c\<rparr>)))"

section \<open>The potential cell of the Psi4 notebook\<close>

text \<open>
  \<^verbatim>\<open>
  vH = inv.eng.grid.esp(Da=inv.Dt[0], Db=inv.Dt[1], grid=grid)[1]
  vFA = (1-1/(inv.nalpha + inv.nbeta)) * vH
  \<close>
  Here the toolkit's \<^verbatim>\<open>esp\<close> receives the two densities and the explicit grid (the
  array of the points' coordinates) and returns a tuple, of which the cell takes the
  second component.
\<close>

definition potentials_psi4 ::
  "(mat \<Rightarrow> mat \<Rightarrow> mat \<Rightarrow> vec list) \<Rightarrow> mat \<Rightarrow> inverter \<Rightarrow> error + vec \<times> vec" where
  "potentials_psi4 grid_esp grid i =
     bindE (getitem (Dt i) 0) (\<lambda>D0.
     bindE (getitem (Dt i) 1) (\<lambda>D1.
     bindE (getitem (grid_esp D0 D1 grid) 1) (\<lambda>vH.
     bindE (fermi_amaldi_factor i) (\<lambda>c.
       let vFA = scalar_mul c vH in
       Inr (vH, vFA)))))"

section \<open>A small instance\<close>

text \<open>
  A two-orbital instance on which the cells can be run: a mean-field result, a
  closed-shell molecule with two electrons per channel, the inverter as
  \<^verbatim>\<open>set_system\<close> leaves it, and a toolkit whose calls are simple functions.
\<close>

definition ex_mf :: scf where
  "ex_mf = \<lparr>mo_coeff = [[1, 0, 3], [0, 1, 4]], mo_energy = [-4, -1/2, 1],
            make_rdm1 = [[2, 1], [1, 4]]\<rparr>"

definition ex_mol :: mole where
  "ex_mol = \<lparr>nelec = (2, 2)\<rparr>"

definition ex_inv0 :: inverter where
  "ex_inv0 = \<lparr>Dt = [], ct = [], et = [], nalpha = 2, nbeta = 2, v_pbs = []\<rparr>"

definition ex_tk :: "nat toolkit" where
  "ex_tk = \<lparr>invert = (\<lambda>m gc i. i\<lparr>v_pbs := [1, 2, 3]\<rparr>),
            grid_build_rectangular = (\<lambda>(a, b, c). a * b * c),
            grid_hartree = (\<lambda>D g. map sum_list D),
            grid_to_grid = (\<lambda>v g. take 2 v)\<rparr>"

lemmas ex_defs = notebook_def ex_tk_def ex_mf_def ex_mol_def ex_inv0_def extract_target_def
  Let_def potentials_def exchange_correlation_def getitem_def np_add2_def np_add_def
  np_subtract_def broadcast2_def broadcast1_def div_scalar_def fermi_amaldi_factor_def
  truediv_def scalar_mul_def columns_upto_def

section \<open>Facts about the array operations\<close>

lemma bindE_simps [simp]:
  "bindE (Inl e) f = Inl e"
  "bindE (Inr v) f = f v"
  by (simp_all add: bindE_def)

lemma bindE_Inr_iff:
  "bindE m f = Inr r \<longleftrightarrow> (\<exists>v. m = Inr v \<and> f v = Inr r)"
  by (cases m) simp_all

lemma collect_all_Inr: "collect (map Inr xs) = Inr xs"
  by (induction xs) simp_all

lemma halves_add_row: "map2 (+) (map (\<lambda>u. u / 2) r) (map (\<lambda>u. u / 2) r) = (r :: vec)"
  by (induction r) simp_all

lemma halves_add:
  "np_add2 (div_scalar A 2) (div_scalar A 2) = Inr A"
proof -
  have "map2 (broadcast1 (+)) (div_scalar A 2) (div_scalar A 2) = map Inr A"
    by (induction A) (simp_all add: div_scalar_def broadcast1_def halves_add_row)
  then show ?thesis
    by (simp add: np_add2_def broadcast2_def collect_all_Inr)
qed

lemma map2_add_commute: "map2 (+) a b = map2 (+) b (a :: vec)"
proof (induction a arbitrary: b)
  case Nil
  then show ?case by simp
next
  case (Cons u a)
  then show ?case by (cases b) (simp_all add: add.commute)
qed

lemma np_add_commute: "np_add a b = np_add b a"
  unfolding np_add_def broadcast1_def
  by (auto simp: map2_add_commute add.commute)



section \<open>The Fermi-Amaldi factor\<close>

lemma fermi_amaldi_factor_pos:
  "0 < nalpha i + nbeta i \<Longrightarrow>
     fermi_amaldi_factor i = Inr (1 - 1 / real (nalpha i + nbeta i))"
  by (simp add: fermi_amaldi_factor_def truediv_def)

text \<open>Without electrons the division raises, and so does the cell.\<close>

lemma fermi_amaldi_factor_zero:
  "nalpha i + nbeta i = 0 \<Longrightarrow> fermi_amaldi_factor i = Inl ZeroDivisionError"
  by (simp add: fermi_amaldi_factor_def truediv_def)

lemma potentials_no_electrons:
  assumes "getitem (Dt i) 0 = Inr Da" and "getitem (Dt i) 1 = Inr Db"
      and "np_add2 Da Db = Inr D"
      and "nalpha i + nbeta i = 0"
  shows "potentials tk g i = Inl ZeroDivisionError"
  using assms by (simp add: potentials_def fermi_amaldi_factor_zero Let_def)

text \<open>The Psi4 cell scales the second component of \<^verbatim>\<open>esp\<close> in the same way.\<close>

lemma potentials_psi4_scaled:
  assumes "potentials_psi4 grid_esp grid i = Inr (h, f)"
  shows "0 < nalpha i + nbeta i
       \<and> f = scalar_mul (1 - 1 / real (nalpha i + nbeta i)) h"
proof (cases "nalpha i + nbeta i = 0")
  case True
  with assms show ?thesis
    by (auto simp: potentials_psi4_def bindE_Inr_iff fermi_amaldi_factor_zero)
next
  case False
  then have "0 < nalpha i + nbeta i" by simp
  with assms show ?thesis
    by (auto simp: potentials_psi4_def bindE_Inr_iff fermi_amaldi_factor_pos Let_def)
qed

section \<open>Claims\<close>



text \<open>
  C9.  In the restricted, closed-shell PySCF example (as many alpha as beta
  electrons) the two target densities handed to the inverter are the same matrix,
  each the total one-particle density matrix divided by two, and their sum is the
  total density again; the orbital coefficients and the orbital energies of both
  channels come from the one restricted calculation and coincide.  Exchanging the two
  spin channels therefore leaves each of \<^verbatim>\<open>inv.Dt\<close>, \<^verbatim>\<open>inv.ct\<close> and \<^verbatim>\<open>inv.et\<close> as
  it is.
\<close>

theorem restricted_inputs_spin_symmetric:
  assumes "fst (nelec mol) = snd (nelec mol)"
  shows "Dt (inv_obj (extract_target mf mol inv0)) = [div_scalar (make_rdm1 mf) 2, div_scalar (make_rdm1 mf) 2]
       \<and> getitem (Dt (inv_obj (extract_target mf mol inv0))) 0 = getitem (Dt (inv_obj (extract_target mf mol inv0))) 1
       \<and> bindE (getitem (Dt (inv_obj (extract_target mf mol inv0))) 0) (\<lambda>D0.
           bindE (getitem (Dt (inv_obj (extract_target mf mol inv0))) 1) (\<lambda>D1. np_add2 D0 D1))
           = Inr (make_rdm1 mf)
       \<and> ct (inv_obj (extract_target mf mol inv0))
           = [columns_upto (mo_coeff mf) (fst (nelec mol)), columns_upto (mo_coeff mf) (fst (nelec mol))]
       \<and> et (inv_obj (extract_target mf mol inv0)) = [mo_energy mf, mo_energy mf]
       \<and> rev (Dt (inv_obj (extract_target mf mol inv0))) = Dt (inv_obj (extract_target mf mol inv0))
       \<and> rev (ct (inv_obj (extract_target mf mol inv0))) = ct (inv_obj (extract_target mf mol inv0))
       \<and> rev (et (inv_obj (extract_target mf mol inv0))) = et (inv_obj (extract_target mf mol inv0))"
  using assms by (simp add: extract_target_def Let_def getitem_def halves_add)

theorem restricted_inputs_spin_symmetric_witness:
  "fst (nelec ex_mol) = snd (nelec ex_mol)
   \<and> Dt (inv_obj (extract_target ex_mf ex_mol ex_inv0))
       = [[[1, 1 / 2], [1 / 2, 2]], [[1, 1 / 2], [1 / 2, 2]]]
   \<and> ct (inv_obj (extract_target ex_mf ex_mol ex_inv0)) = [[[1, 0], [0, 1]], [[1, 0], [0, 1]]]
   \<and> et (inv_obj (extract_target ex_mf ex_mol ex_inv0)) = [[-4, -1/2, 1], [-4, -1/2, 1]]
   \<and> np_add2 [[1, 1 / 2], [1 / 2, 2]] [[1, 1 / 2], [1 / 2, 2]] = Inr [[2, 1], [1, 4]]"
proof -
  have h: "fst (nelec ex_mol) = snd (nelec ex_mol)"
    by (simp add: ex_mol_def)
  from restricted_inputs_spin_symmetric [OF h, of ex_mf ex_inv0] h
  show ?thesis
    by (simp add: ex_defs)
qed

end
